theory Spec2Isabelle
  imports Complex_Main "HOL-Library.AList"
begin

section \<open>Values, errors and the HTTP boundary\<close>

text \<open>
  The dashboard (\<^verbatim>\<open>app.py\<close>) reads two CoinGecko endpoints with \<^verbatim>\<open>requests.get\<close> and
  transforms the decoded JSON with pandas. Numbers are modelled as exact rationals
  (\<^typ>\<open>rat\<close>): the arithmetic of the indicators is the ideal one, without the rounding of
  IEEE doubles. A missing cell (pandas \<^verbatim>\<open>NaN\<close>) is \<^term>\<open>None\<close>.

  Every exception the code can meet is a value of \<open>py_error\<close>; both fetch functions wrap
  their body in a bare \<^verbatim>\<open>try ... except: return None\<close>.
\<close>

datatype py_error = KeyError | ValueError | OutOfBoundsDatetime

text \<open>
  What \<^verbatim>\<open>requests.get(...)\<close> followed by \<^verbatim>\<open>resp.json()\<close> can give: the call raises
  (network, timeout), or a response arrives with a status code and a body that either
  decodes as JSON (\<open>Some data\<close>) or makes \<^verbatim>\<open>resp.json()\<close> raise (\<open>None\<close>).
\<close>

datatype 'a http_result = RequestFailed | Response int "'a option"

text \<open>
  Statements in sequence: the first exception ends the sequence, as a \<^verbatim>\<open>raise\<close> does.
\<close>

fun then_do :: "'e + 'a \<Rightarrow> ('a \<Rightarrow> 'e + 'b) \<Rightarrow> 'e + 'b" where
  "then_do (Inl e) f = Inl e"
| "then_do (Inr x) f = f x"

section \<open>The pandas operations the code uses\<close>

text \<open>
  pandas is a library the script calls; its operations are written here as pandas
  documents and implements them, for the arguments the script passes.

  A \<^verbatim>\<open>Series\<close> is a list of (label, cell) pairs; a \<^verbatim>\<open>DataFrame\<close> is a row index and an
  ordered list of named columns, each as long as the index.
\<close>

type_synonym ('i, 'v) series = "('i \<times> 'v option) list"

record ('i, 'v) frame =
  index :: "'i list"
  columns :: "(string \<times> 'v option list) list"

definition empty_frame :: "('i, 'v) frame" where
  \<comment> \<open>\<^verbatim>\<open>pd.DataFrame()\<close>\<close>
  "empty_frame = \<lparr>index = [], columns = []\<rparr>"

definition DataFrame2 :: "string \<Rightarrow> string \<Rightarrow> (rat \<times> rat) list \<Rightarrow> (nat, rat) frame" where
  \<comment> \<open>\<^verbatim>\<open>pd.DataFrame(rows, columns=[c1, c2])\<close> for a list of two-element rows\<close>
  "DataFrame2 c1 c2 rows =
     \<lparr>index = [0..<length rows],
      columns = [(c1, map (\<lambda>r. Some (fst r)) rows), (c2, map (\<lambda>r. Some (snd r)) rows)]\<rparr>"

definition getitem :: "('i, 'v) frame \<Rightarrow> string \<Rightarrow> py_error + ('i, 'v) series" where
  \<comment> \<open>\<^verbatim>\<open>df[key]\<close>\<close>
  "getitem df key =
     (case map_of (columns df) key of
        None \<Rightarrow> Inl KeyError
      | Some col \<Rightarrow> Inr (zip (index df) col))"

definition reindex :: "('i, 'v) series \<Rightarrow> 'i list \<Rightarrow> py_error + 'v option list" where
  \<comment> \<open>\<^verbatim>\<open>value.reindex(target)\<close>: the cell of each target label, missing where the series
      has no such label; a series with a repeated label cannot be reindexed\<close>
  "reindex s target =
     (if distinct (map fst s)
      then Inr (map (\<lambda>t. case map_of s t of None \<Rightarrow> None | Some v \<Rightarrow> v) target)
      else Inl ValueError)"

definition ensure_valid_index :: "('i, 'v) frame \<Rightarrow> ('i, 'v) series \<Rightarrow> ('i, 'v) frame" where
  \<comment> \<open>a frame with no rows takes its row index from the first non-empty value assigned
      to it; the columns it already has are filled with missing cells\<close>
  "ensure_valid_index df s =
     (if index df = [] \<and> s \<noteq> []
      then \<lparr>index = map fst s,
            columns = map (\<lambda>(k, col). (k, replicate (length s) None)) (columns df)\<rparr>
      else df)"

definition reindex_for_setitem :: "('i, 'v) series \<Rightarrow> ('i, 'v) frame \<Rightarrow> py_error + 'v option list" where
  \<comment> \<open>the cells a Series contributes to a frame: its own cells when its labels are the
      frame's row index, its cells reindexed to the frame's rows otherwise\<close>
  "reindex_for_setitem s df =
     (if map fst s = index df \<or> index df = [] then Inr (map snd s)
      else reindex s (index df))"

definition setitem :: "('i, 'v) frame \<Rightarrow> string \<Rightarrow> ('i, 'v) series \<Rightarrow> py_error + ('i, 'v) frame" where
  \<comment> \<open>\<^verbatim>\<open>df[key] = value\<close> for a Series value: aligned on the frame's row index, not
      positionally; an existing column is replaced in place, a new one goes last\<close>
  "setitem df key s =
     (let df1 = ensure_valid_index df s in
      then_do (reindex_for_setitem s df1)
        (\<lambda>vals. Inr (df1\<lparr>columns := AList.update key vals (columns df1)\<rparr>)))"

definition on_values :: "('v option list \<Rightarrow> 'w option list) \<Rightarrow> ('i, 'v) series \<Rightarrow> ('i, 'w) series" where
  \<comment> \<open>a Series method that keeps the labels and computes new cells of the same number\<close>
  "on_values f s = zip (map fst s) (f (map snd s))"

definition shift1 :: "'v option list \<Rightarrow> 'v option list" where
  \<comment> \<open>\<^verbatim>\<open>.shift(1)\<close>\<close>
  "shift1 xs = (if xs = [] then [] else None # butlast xs)"

definition window :: "nat \<Rightarrow> 'a list \<Rightarrow> nat \<Rightarrow> 'a list" where
  \<comment> \<open>the (at most \<open>w\<close>) cells of the trailing window that ends at position \<open>i\<close>\<close>
  "window w xs i = take w (drop (Suc i - w) xs)"

definition rolling :: "nat \<Rightarrow> (rat list \<Rightarrow> rat) \<Rightarrow> rat option list \<Rightarrow> rat option list" where
  \<comment> \<open>\<^verbatim>\<open>.rolling(w).agg()\<close> with the default \<^verbatim>\<open>min_periods = w\<close>: a value only where
      the window holds \<open>w\<close> cells and none of them is missing\<close>
  "rolling w agg xs =
     map (\<lambda>i. if Suc i < w \<or> w = 0 then None
               else (let win = window w xs i
                     in if list_all (\<lambda>x. x \<noteq> None) win then Some (agg (map the win)) else None))
         [0..<length xs]"

text \<open>The aggregates, applied to windows of at least one cell only.\<close>

definition list_max :: "rat list \<Rightarrow> rat" where
  "list_max xs = foldl max (hd xs) (tl xs)"

definition list_min :: "rat list \<Rightarrow> rat" where
  "list_min xs = foldl min (hd xs) (tl xs)"

definition list_mean :: "rat list \<Rightarrow> rat" where
  "list_mean xs = sum_list xs / of_nat (length xs)"

text \<open>
  \<^verbatim>\<open>.ewm(span=s, adjust=False).mean()\<close>, as the loop pandas runs: \<open>weighted\<close> is the
  running average (missing until the first observation), \<open>old_wt\<close> the weight it
  carries, which decays by \<open>1 - alpha\<close> over every missing cell and is reset to 1 at
  every observation.
\<close>

fun ewm_loop :: "rat \<Rightarrow> rat option \<Rightarrow> rat \<Rightarrow> rat option list \<Rightarrow> rat option list" where
  "ewm_loop alpha weighted old_wt [] = []"
| "ewm_loop alpha None old_wt (cur # rest) = cur # ewm_loop alpha cur old_wt rest"
| "ewm_loop alpha (Some w) old_wt (None # rest) =
     Some w # ewm_loop alpha (Some w) (old_wt * (1 - alpha)) rest"
| "ewm_loop alpha (Some w) old_wt (Some c # rest) =
     (let old_wt1 = old_wt * (1 - alpha);
          w1 = (if w \<noteq> c then (old_wt1 * w + alpha * c) / (old_wt1 + alpha) else w)
      in Some w1 # ewm_loop alpha (Some w1) 1 rest)"

definition ewm_mean :: "nat \<Rightarrow> rat option list \<Rightarrow> rat option list" where
  \<comment> \<open>\<open>s\<close> is the span: the smoothing factor is \<open>2 / (s + 1)\<close>\<close>
  "ewm_mean s vals =
     (case vals of
        [] \<Rightarrow> []
      | v # rest \<Rightarrow> v # ewm_loop (2 / (of_nat s + 1)) v 1 rest)"

definition ms_in_range :: "rat \<Rightarrow> bool" where
  \<comment> \<open>a millisecond timestamp whose nanoseconds fit the 64-bit range of a pandas timestamp\<close>
  "ms_in_range t \<longleftrightarrow> \<bar>t * 1000000\<bar> \<le> 9223372036854775807"

definition to_datetime_ms :: "(nat, rat) series \<Rightarrow> py_error + (nat, rat) series" where
  \<comment> \<open>\<^verbatim>\<open>pd.to_datetime(s, unit="ms")\<close>: nanoseconds since the epoch; a value out of
      range raises\<close>
  "to_datetime_ms s =
     (if list_all (\<lambda>(i, c). case c of None \<Rightarrow> True | Some t \<Rightarrow> ms_in_range t) s
      then Inr (map (\<lambda>(i, c). (i, map_option (\<lambda>t. t * 1000000) c)) s)
      else Inl OutOfBoundsDatetime)"

section \<open>Historical data\<close>

text \<open>
  The decoded body of \<^verbatim>\<open>/coins/{id}/market_chart\<close>: a JSON object that may or may not
  have the fields \<^verbatim>\<open>prices\<close> and \<^verbatim>\<open>total_volumes\<close>; each, when present, is a list of
  \<^verbatim>\<open>[timestamp, value]\<close> pairs of numbers.
\<close>

record market_chart =
  prices :: "(rat \<times> rat) list option"
  total_volumes :: "(rat \<times> rat) list option"

text \<open>Lines 161 to 164: the four candle columns, from the \<^verbatim>\<open>price\<close> column.\<close>

definition ohlc :: "(nat, rat) frame \<Rightarrow> py_error + (nat, rat) frame" where
  "ohlc df =
     then_do (getitem df ''price'') (\<lambda>price.
     then_do (setitem df ''open'' (on_values shift1 price)) (\<lambda>df.
     then_do (getitem df ''price'') (\<lambda>price.
     then_do (setitem df ''close'' price) (\<lambda>df.
     then_do (getitem df ''price'') (\<lambda>price.
     then_do (setitem df ''high'' (on_values (rolling 2 list_max) price)) (\<lambda>df.
     then_do (getitem df ''price'') (\<lambda>price.
     setitem df ''low'' (on_values (rolling 2 list_min) price))))))))"

text \<open>Lines 166 to 171: the indicator columns, from the \<^verbatim>\<open>close\<close> column.\<close>

definition moving_averages :: "(nat, rat) frame \<Rightarrow> py_error + (nat, rat) frame" where
  "moving_averages df =
     then_do (getitem df ''close'') (\<lambda>close.
     then_do (setitem df ''MA7'' (on_values (rolling 7 list_mean) close)) (\<lambda>df.
     then_do (getitem df ''close'') (\<lambda>close.
     setitem df ''MA25'' (on_values (rolling 25 list_mean) close))))"

definition exp_moving_averages :: "(nat, rat) frame \<Rightarrow> py_error + (nat, rat) frame" where
  "exp_moving_averages df =
     then_do (getitem df ''close'') (\<lambda>close.
     then_do (setitem df ''EMA12'' (on_values (ewm_mean 12) close)) (\<lambda>df.
     then_do (getitem df ''close'') (\<lambda>close.
     setitem df ''EMA26'' (on_values (ewm_mean 26) close))))"

text \<open>Lines 159 to 172: the table built once both fields are there.\<close>

definition build_table :: "bool \<Rightarrow> bool \<Rightarrow> (rat \<times> rat) list \<Rightarrow> (rat \<times> rat) list \<Rightarrow> py_error + (nat, rat) frame" where
  "build_table show_ma show_ema ps vs =
     (let df = DataFrame2 ''timestamp'' ''price'' ps in
      then_do (getitem df ''timestamp'') (\<lambda>ts.
      then_do (to_datetime_ms ts) (\<lambda>time.
      then_do (setitem df ''time'' time) (\<lambda>df.
      then_do (ohlc df) (\<lambda>df.
      then_do (getitem (DataFrame2 ''timestamp'' ''volume'' vs) ''volume'') (\<lambda>volume.
      then_do (setitem df ''volume'' volume) (\<lambda>df.
      then_do (if show_ma then moving_averages df else Inr df) (\<lambda>df.
      (if show_ema then exp_moving_averages df else Inr df)))))))))"

text \<open>
  \<^verbatim>\<open>get_historical_data(coin_id, currency, days)\<close>. The two checkboxes \<^verbatim>\<open>show_ma\<close> and
  \<^verbatim>\<open>show_ema\<close> are globals of the script; \<open>requests_get\<close> is the answer of the
  historical source to the request the function sends.
\<close>

definition get_historical_data ::
  "bool \<Rightarrow> bool \<Rightarrow> (string \<Rightarrow> string \<Rightarrow> string \<Rightarrow> market_chart http_result)
     \<Rightarrow> string \<Rightarrow> string \<Rightarrow> string \<Rightarrow> (nat, rat) frame option" where
  "get_historical_data show_ma show_ema requests_get coin_id currency days =
     (case requests_get coin_id currency days of
        RequestFailed \<Rightarrow> None
      | Response status_code body \<Rightarrow>
          if status_code \<noteq> 200 then None
          else (case body of
                  None \<Rightarrow> None
                | Some data \<Rightarrow>
                    (case (prices data, total_volumes data) of
                       (Some ps, Some vs) \<Rightarrow>
                         (case build_table show_ma show_ema ps vs of
                            Inl e \<Rightarrow> None
                          | Inr df \<Rightarrow> Some df)
                     | _ \<Rightarrow> None)))"

text \<open>Lines 177 to 181: the result collection, one entry per asset that gave a table.\<close>

fun collect_hist ::
  "(string \<Rightarrow> (nat, rat) frame option) \<Rightarrow> string list
     \<Rightarrow> (string \<rightharpoonup> (nat, rat) frame) \<Rightarrow> (string \<rightharpoonup> (nat, rat) frame)" where
  "collect_hist get [] acc = acc"
| "collect_hist get (coin_id # rest) acc =
     (case get coin_id of
        None \<Rightarrow> collect_hist get rest acc
      | Some df_hist \<Rightarrow> collect_hist get rest (acc(coin_id \<mapsto> df_hist)))"

definition all_hist_data ::
  "bool \<Rightarrow> bool \<Rightarrow> (string \<Rightarrow> string \<Rightarrow> string \<Rightarrow> market_chart http_result)
     \<Rightarrow> string list \<Rightarrow> string \<Rightarrow> string \<Rightarrow> (string \<rightharpoonup> (nat, rat) frame)" where
  "all_hist_data show_ma show_ema requests_get selected_ids currency days =
     collect_hist (\<lambda>coin_id. get_historical_data show_ma show_ema requests_get coin_id currency days)
       selected_ids Map.empty"

section \<open>Live data\<close>

text \<open>
  The decoded body of \<^verbatim>\<open>/simple/price\<close>: a JSON object from asset ids to objects
  from currency codes to a number or \<^verbatim>\<open>null\<close> (\<open>Some None\<close>).
\<close>

type_synonym simple_price = "string \<rightharpoonup> (string \<rightharpoonup> rat option)"

definition get_live_price :: "simple_price http_result \<Rightarrow> string \<Rightarrow> string \<Rightarrow> rat option" where
  \<comment> \<open>\<open>resp\<close> is the answer of the current-price source to the request the function
      sends; the result \<open>None\<close> is Python's \<^verbatim>\<open>None\<close>\<close>
  "get_live_price resp coin_id currency =
     (case resp of
        RequestFailed \<Rightarrow> None
      | Response status_code body \<Rightarrow>
          if status_code \<noteq> 200 then None
          else (case body of
                  None \<Rightarrow> None
                | Some data \<Rightarrow>
                    (case (case data coin_id of None \<Rightarrow> Map.empty | Some d \<Rightarrow> d) currency of
                       None \<Rightarrow> None
                     | Some v \<Rightarrow> v)))"

definition truthy :: "rat option \<Rightarrow> bool" where
  \<comment> \<open>Python's truth value of \<^verbatim>\<open>None\<close> or a number, as \<^verbatim>\<open>if price:\<close> tests it\<close>
  "truthy price = (case price of None \<Rightarrow> False | Some x \<Rightarrow> x \<noteq> 0)"

definition price_series :: "(int \<times> rat) list \<Rightarrow> (int, rat) series" where
  \<comment> \<open>\<^verbatim>\<open>pd.DataFrame(buffer).set_index("time")["price"]\<close>\<close>
  "price_series buffer = map (\<lambda>(t, p). (t, Some p)) buffer"

text \<open>
  \<^verbatim>\<open>update_live()\<close>, one polling tick. \<open>live_data\<close> is the dict of buffers, which has a
  key for every selected id and is only ever looked up at selected ids, so it is a
  total function here; \<open>requests_get\<close> is the answer of the source to the request for
  an asset during this tick and \<open>now i\<close> the reading of \<^verbatim>\<open>datetime.now()\<close> in iteration
  \<open>i\<close> of the loop. The result
  is the new \<open>live_data\<close> and the table handed to the chart, or the exception that left
  the loop. The logo and metric widgets are not modelled.
\<close>

fun update_live_loop ::
  "(string \<Rightarrow> string \<Rightarrow> simple_price http_result) \<Rightarrow> (nat \<Rightarrow> int) \<Rightarrow> string \<Rightarrow> nat \<Rightarrow> string list
     \<Rightarrow> (string \<Rightarrow> (int \<times> rat) list) \<Rightarrow> (int, rat) frame
     \<Rightarrow> (string \<Rightarrow> (int \<times> rat) list) \<times> (py_error + (int, rat) frame)" where
  "update_live_loop requests_get now currency i [] live_data df_plot = (live_data, Inr df_plot)"
| "update_live_loop requests_get now currency i (coin_id # rest) live_data df_plot =
     (let price = get_live_price (requests_get coin_id currency) coin_id currency in
      if truthy price then
        (let live_data = live_data(coin_id := live_data coin_id @ [(now i, the price)]);
             df_temp = price_series (live_data coin_id)
         in case setitem df_plot coin_id df_temp of
              Inl e \<Rightarrow> (live_data, Inl e)
            | Inr df_plot \<Rightarrow> update_live_loop requests_get now currency (Suc i) rest live_data df_plot)
      else update_live_loop requests_get now currency (Suc i) rest live_data df_plot)"

definition update_live ::
  "(string \<Rightarrow> string \<Rightarrow> simple_price http_result) \<Rightarrow> (nat \<Rightarrow> int) \<Rightarrow> string \<Rightarrow> string list
     \<Rightarrow> (string \<Rightarrow> (int \<times> rat) list)
     \<Rightarrow> (string \<Rightarrow> (int \<times> rat) list) \<times> (py_error + (int, rat) frame)" where
  "update_live requests_get now currency selected_ids live_data =
     update_live_loop requests_get now currency 0 selected_ids live_data empty_frame"

subsection \<open>The table as a function of the buffers\<close>

text \<open>
  The assets that return a price in a tick, and the table assembled column by column
  from given buffers for a given list of assets: the two notions in which the table of
  a tick is described below.
\<close>

definition priced :: "(string \<Rightarrow> string \<Rightarrow> simple_price http_result) \<Rightarrow> string \<Rightarrow> string list \<Rightarrow> string list" where
  "priced requests_get currency ids =
     filter (\<lambda>coin_id. truthy (get_live_price (requests_get coin_id currency) coin_id currency)) ids"

fun rebuild ::
  "(string \<Rightarrow> (int \<times> rat) list) \<Rightarrow> string list \<Rightarrow> (int, rat) frame \<Rightarrow> py_error + (int, rat) frame" where
  "rebuild live_data [] df = Inr df"
| "rebuild live_data (coin_id # rest) df =
     then_do (setitem df coin_id (price_series (live_data coin_id))) (rebuild live_data rest)"


section \<open>Facts about the pandas operations and the table builder\<close>






























lemma collect_hist_apply:
  "collect_hist get ids acc c =
     (if c \<in> set ids then (case get c of None \<Rightarrow> acc c | Some df \<Rightarrow> Some df) else acc c)"
  by (induction ids arbitrary: acc) (auto split: option.splits)

lemma all_hist_data_apply:
  "all_hist_data show_ma show_ema requests_get selected_ids currency days c =
     (if c \<in> set selected_ids
      then get_historical_data show_ma show_ema requests_get c currency days else None)"
  by (simp add: all_hist_data_def collect_hist_apply split: option.splits)


section \<open>Facts about a polling tick\<close>

lemma update_live_loop_rebuild:
  assumes "distinct ids"
    and "update_live_loop requests_get now currency i ids live_data df = (live_data', r)"
  shows "r = rebuild live_data' (priced requests_get currency ids) df
       \<and> (\<forall>c. c \<notin> set ids \<longrightarrow> live_data' c = live_data c)"
  using assms
proof (induction ids arbitrary: i live_data df)
  case Nil
  then show ?case by (simp add: priced_def)
next
  case (Cons coin_id rest)
  let ?price = "get_live_price (requests_get coin_id currency) coin_id currency"
  have d: "distinct rest" and notin: "coin_id \<notin> set rest"
    using Cons.prems(1) by simp_all
  show ?case
  proof (cases "truthy ?price")
    case False
    then have run: "update_live_loop requests_get now currency (Suc i) rest live_data df = (live_data', r)"
      using Cons.prems(2) by simp
    have p: "priced requests_get currency (coin_id # rest) = priced requests_get currency rest"
      using False by (simp add: priced_def)
    from Cons.IH [OF d run] show ?thesis
      unfolding p by simp
  next
    case True
    let ?ld = "live_data(coin_id := live_data coin_id @ [(now i, the ?price)])"
    have p: "priced requests_get currency (coin_id # rest) = coin_id # priced requests_get currency rest"
      using True by (simp add: priced_def)
    show ?thesis
    proof (cases "setitem df coin_id (price_series (?ld coin_id))")
      case (Inl e)
      then have res: "live_data' = ?ld" "r = Inl e"
        using Cons.prems(2) True by (simp_all add: Let_def)
      then show ?thesis
        unfolding p using Inl by auto
    next
      case (Inr df1)
      then have run: "update_live_loop requests_get now currency (Suc i) rest ?ld df1 = (live_data', r)"
        using Cons.prems(2) True by (simp add: Let_def)
      from Cons.IH [OF d run] have r: "r = rebuild live_data' (priced requests_get currency rest) df1"
        and keep: "\<forall>c. c \<notin> set rest \<longrightarrow> live_data' c = ?ld c"
        by simp_all
      from keep notin have same: "live_data' coin_id = ?ld coin_id"
        by blast
      have "rebuild live_data' (priced requests_get currency (coin_id # rest)) df = r"
        unfolding p using Inr r same by simp
      moreover have "\<forall>c. c \<notin> set (coin_id # rest) \<longrightarrow> live_data' c = live_data c"
        using keep by auto
      ultimately show ?thesis by simp
    qed
  qed
qed


lemma update_live_loop_buffers:
  assumes "update_live_loop requests_get now currency k ids live_data df = (live_data', r)"
    and "distinct ids" and "isl r = False" and "j < length ids"
  shows "live_data' (ids ! j) =
     (if truthy (get_live_price (requests_get (ids ! j) currency) (ids ! j) currency)
      then live_data (ids ! j)
             @ [(now (k + j), the (get_live_price (requests_get (ids ! j) currency) (ids ! j) currency))]
      else live_data (ids ! j))"
  using assms
proof (induction ids arbitrary: k live_data df j)
  case Nil
  then show ?case by simp
next
  case (Cons coin_id rest)
  let ?price = "get_live_price (requests_get coin_id currency) coin_id currency"
  let ?ld = "live_data(coin_id := live_data coin_id @ [(now k, the ?price)])"
  have d: "distinct rest" and notin: "coin_id \<notin> set rest"
    using Cons.prems(2) by simp_all
  obtain ld1 df1 where run: "update_live_loop requests_get now currency (Suc k) rest ld1 df1 = (live_data', r)"
    and ld1: "ld1 = (if truthy ?price then ?ld else live_data)"
  proof (cases "truthy ?price")
    case False
    with Cons.prems(1) that show ?thesis by simp
  next
    case True
    show ?thesis
    proof (cases "setitem df coin_id (price_series (?ld coin_id))")
      case (Inl e)
      with Cons.prems(1) True have "r = Inl e" by (simp add: Let_def)
      with Cons.prems(3) have False by simp
      then show ?thesis ..
    next
      case (Inr df1)
      with Cons.prems(1) True that [of ?ld df1] show ?thesis by (simp add: Let_def)
    qed
  qed
  show ?case
  proof (cases j)
    case 0
    from update_live_loop_rebuild [OF d run] notin have "live_data' coin_id = ld1 coin_id"
      by blast
    with 0 ld1 show ?thesis by simp
  next
    case (Suc j')
    with Cons.prems(4) have j': "j' < length rest" by simp
    then have "rest ! j' \<noteq> coin_id"
      using notin by (metis nth_mem)
    then have "ld1 (rest ! j') = live_data (rest ! j')"
      using ld1 by simp
    with Cons.IH [OF run d Cons.prems(3) j'] Suc show ?thesis
      by simp
  qed
qed










section \<open>The claims\<close>










text \<open>
  C5. For every asset: if the request raises, or the status is not 200, or the body does
  not decode, or the decoded body lacks the price field or the volume field, then
  \<^verbatim>\<open>get_historical_data\<close> returns \<^verbatim>\<open>None\<close> (no table, no exception) and the asset has no
  entry in \<^verbatim>\<open>all_hist_data\<close>.
\<close>

theorem failed_fetch_gives_no_data:
  assumes "requests_get coin_id currency days = RequestFailed
         \<or> (\<exists>status_code body. requests_get coin_id currency days = Response status_code body
              \<and> (status_code \<noteq> 200 \<or> body = None
                   \<or> (\<exists>data. body = Some data \<and> (prices data = None \<or> total_volumes data = None))))"
  shows "get_historical_data show_ma show_ema requests_get coin_id currency days = None
       \<and> all_hist_data show_ma show_ema requests_get selected_ids currency days coin_id = None"
proof -
  have "get_historical_data show_ma show_ema requests_get coin_id currency days = None"
    using assms by (auto simp: get_historical_data_def split: option.splits)
  then show ?thesis
    by (simp add: all_hist_data_apply)
qed

text \<open>A body without the volume field, for two assets: the result collection is empty.\<close>

theorem failed_fetch_gives_no_data_witness:
  "get_historical_data True True
     (\<lambda>_ _ _. Response 200 (Some \<lparr>prices = Some [(1, 10), (2, 12)], total_volumes = None\<rparr>))
     ''bitcoin'' ''usd'' ''7'' = None
   \<and> all_hist_data True True
     (\<lambda>_ _ _. Response 200 (Some \<lparr>prices = Some [(1, 10), (2, 12)], total_volumes = None\<rparr>))
     [''bitcoin'', ''ethereum''] ''usd'' ''7'' = Map.empty"
proof -
  let ?data = "\<lparr>prices = Some [(1, 10), (2, 12 :: rat)], total_volumes = None\<rparr>"
  let ?rg = "\<lambda>(_ :: string) (_ :: string) (_ :: string). Response 200 (Some ?data)"
  have h: "?rg c ''usd'' ''7'' = RequestFailed
         \<or> (\<exists>status_code body. ?rg c ''usd'' ''7'' = Response status_code body
              \<and> (status_code \<noteq> 200 \<or> body = None
                   \<or> (\<exists>data. body = Some data \<and> (prices data = None \<or> total_volumes data = None))))"
    for c by simp
  have "get_historical_data True True ?rg c ''usd'' ''7'' = None
      \<and> all_hist_data True True ?rg [''bitcoin'', ''ethereum''] ''usd'' ''7'' c = None" for c
    by (rule failed_fetch_gives_no_data [OF h])
  then show ?thesis
    by (intro conjI ext) simp_all
qed




text \<open>
  C7 at the price 0: the source answers with status 200 and the price 0, which
  \<^verbatim>\<open>get_live_price\<close> returns, and \<^verbatim>\<open>if price:\<close> skips the asset; the buffer stays empty.
\<close>

theorem zero_price_is_skipped:
  "get_live_price (Response 200 (Some [''bitcoin'' \<mapsto> [''usd'' \<mapsto> Some 0]])) ''bitcoin'' ''usd'' = Some 0
   \<and> update_live (\<lambda>_ _. Response 200 (Some [''bitcoin'' \<mapsto> [''usd'' \<mapsto> Some 0]])) (\<lambda>_. 1) ''usd''
        [''bitcoin''] (\<lambda>_. [])
      = ((\<lambda>_. []), Inr \<lparr>index = [], columns = []\<rparr>)"
  by (simp add: update_live_def get_live_price_def truthy_def empty_frame_def)

text \<open>
  What a tick without exception does to the buffer of each selected asset (distinct
  ids, position \<open>j\<close> in the selection): a price other than 0 is appended with the clock
  reading of that iteration; no price (\<^verbatim>\<open>None\<close>) and the price 0 leave the buffer as it
  was.
\<close>

theorem nonzero_price_is_appended:
  assumes "update_live requests_get now currency selected_ids live_data = (live_data', Inr df)"
    and "distinct selected_ids" and "j < length selected_ids"
  shows "(\<forall>p. get_live_price (requests_get (selected_ids ! j) currency) (selected_ids ! j) currency = Some p
            \<and> p \<noteq> 0 \<longrightarrow>
            live_data' (selected_ids ! j) = live_data (selected_ids ! j) @ [(now j, p)])
       \<and> (get_live_price (requests_get (selected_ids ! j) currency) (selected_ids ! j) currency = None
            \<longrightarrow> live_data' (selected_ids ! j) = live_data (selected_ids ! j))
       \<and> (get_live_price (requests_get (selected_ids ! j) currency) (selected_ids ! j) currency = Some 0
            \<longrightarrow> live_data' (selected_ids ! j) = live_data (selected_ids ! j))"
proof -
  have run: "update_live_loop requests_get now currency 0 selected_ids live_data empty_frame
             = (live_data', Inr df)"
    using assms(1) by (simp add: update_live_def)
  have "isl (Inr df :: py_error + (int, rat) frame) = False"
    by simp
  from update_live_loop_buffers [OF run assms(2) this assms(3)] show ?thesis
    by (auto simp: truthy_def)
qed

text \<open>
  Three assets: \<open>a\<close> answers 11, \<open>b\<close> answers 0, \<open>c\<close> is not in the response.
\<close>

theorem nonzero_price_is_appended_witness:
  "update_live
     (\<lambda>_ _. Response 200 (Some [''a'' \<mapsto> [''usd'' \<mapsto> Some 11], ''b'' \<mapsto> [''usd'' \<mapsto> Some 0]]))
     (\<lambda>i. 5 + int i) ''usd'' [''a'', ''b'', ''c''] ((\<lambda>_. [])(''a'' := [(1, 10)], ''b'' := [(1, 3)]))
   = ((\<lambda>_. [])(''a'' := [(1, 10), (5, 11)], ''b'' := [(1, 3)]),
      Inr \<lparr>index = [1, 5], columns = [(''a'', [Some 10, Some 11])]\<rparr>)"
proof -
  let ?rg = "\<lambda>(_ :: string) (_ :: string).
     Response 200 (Some [''a'' \<mapsto> [''usd'' \<mapsto> Some (11 :: rat)], ''b'' \<mapsto> [''usd'' \<mapsto> Some 0]])"
  let ?ld = "(\<lambda>_. [])(''a'' := [(1 :: int, 10 :: rat)], ''b'' := [(1, 3)])"
  let ?ld' = "(\<lambda>_. [])(''a'' := [(1 :: int, 10 :: rat), (5, 11)], ''b'' := [(1, 3)])"
  let ?df = "\<lparr>index = [1, 5 :: int], columns = [(''a'', [Some 10, Some (11 :: rat)])]\<rparr>"
  have run: "update_live ?rg (\<lambda>i. 5 + int i) ''usd'' [''a'', ''b'', ''c''] ?ld = (?ld', Inr ?df)"
    by (simp add: update_live_def get_live_price_def truthy_def price_series_def setitem_def
        ensure_valid_index_def reindex_for_setitem_def reindex_def empty_frame_def fun_upd_twist)
  have d: "distinct [''a'', ''b'', ''c'']" and j: "0 < length [''a'', ''b'', ''c'']"
    by simp_all
  from nonzero_price_is_appended [OF run d j]
  have "?ld' ''a'' = ?ld ''a'' @ [((\<lambda>i. 5 + int i) 0, 11)]"
    by (simp add: get_live_price_def)
  with run show ?thesis by simp
qed








end
